theory Spec2Isabelle
  imports Complex_Main "HOL-Library.Multiset"
begin

section \<open>JavaScript values used by the service\<close>

text \<open>
  Strings are \<^typ>\<open>string\<close>. A JavaScript number is needed in two places only: the
  \<open>limit\<close> handed to \<open>Array.prototype.slice\<close> and the hour and minute fields read by
  \<open>Number\<close> from a schedule. Both are integers or \<open>NaN\<close> in this development, so the
  type below has exactly these two cases. Ratings are finite floating-point numbers in the
  source; on finite numbers the sign of \<open>b.rating - a.rating\<close> is the sign of the exact
  difference, so ratings are modelled as \<^typ>\<open>real\<close>.
\<close>

datatype number = NaN | Num int

fun num_mul :: "number \<Rightarrow> number \<Rightarrow> number" where
  "num_mul (Num a) (Num b) = Num (a * b)"
| "num_mul _ _ = NaN"

fun num_add :: "number \<Rightarrow> number \<Rightarrow> number" where
  "num_add (Num a) (Num b) = Num (a + b)"
| "num_add _ _ = NaN"

text \<open>Comparisons with \<open>NaN\<close> are false.\<close>

fun num_ge :: "number \<Rightarrow> number \<Rightarrow> bool" where
  "num_ge (Num a) (Num b) = (a \<ge> b)"
| "num_ge _ _ = False"

fun num_lt :: "number \<Rightarrow> number \<Rightarrow> bool" where
  "num_lt (Num a) (Num b) = (a < b)"
| "num_lt _ _ = False"

text \<open>\<open>s.startsWith(sub)\<close> and \<open>s.includes(sub)\<close>.\<close>

fun startsWith :: "'a list \<Rightarrow> 'a list \<Rightarrow> bool" where
  "startsWith s [] = True"
| "startsWith [] (c # sub) = False"
| "startsWith (d # s) (c # sub) = (d = c \<and> startsWith s sub)"

fun str_includes :: "'a list \<Rightarrow> 'a list \<Rightarrow> bool" where
  "str_includes [] sub = (sub = [])"
| "str_includes (d # s) sub = (startsWith (d # s) sub \<or> str_includes s sub)"

text \<open>
  \<open>xs.slice(0, end)\<close>: \<open>NaN\<close> is read as 0, a negative \<open>end\<close> counts from the end of
  the array, and the result is cut at the array's length.
\<close>

fun slice0 :: "'a list \<Rightarrow> number \<Rightarrow> 'a list" where
  "slice0 xs NaN = []"
| "slice0 xs (Num n) =
     (if n < 0 then take (nat (max (int (length xs) + n) 0)) xs
      else take (nat (min n (int (length xs)))) xs)"

text \<open>
  \<open>xs.sort(cmp)\<close> on a fresh array: the sort is stable, and with a comparator that orders
  the elements by a key its result is the one stable arrangement in which \<open>cmp a b \<le> 0\<close>
  for every \<open>a\<close> placed before \<open>b\<close>. Insertion from the right computes it.
\<close>

fun sort_insert :: "('a \<Rightarrow> 'a \<Rightarrow> real) \<Rightarrow> 'a \<Rightarrow> 'a list \<Rightarrow> 'a list" where
  "sort_insert cmp x [] = [x]"
| "sort_insert cmp x (y # ys) =
     (if cmp x y \<le> 0 then x # y # ys else y # sort_insert cmp x ys)"

fun array_sort :: "('a \<Rightarrow> 'a \<Rightarrow> real) \<Rightarrow> 'a list \<Rightarrow> 'a list" where
  "array_sort cmp [] = []"
| "array_sort cmp (x # xs) = sort_insert cmp x (array_sort cmp xs)"

text \<open>\<open>xs.findIndex(p)\<close>, with \<open>None\<close> for -1.\<close>

fun findIndex :: "('a \<Rightarrow> bool) \<Rightarrow> 'a list \<Rightarrow> nat option" where
  "findIndex p [] = None"
| "findIndex p (x # xs) =
     (if p x then Some 0 else map_option Suc (findIndex p xs))"

section \<open>Data model\<close>

text \<open>
  Modelled from the spec: the declarations of \<open>Entity\<close>, \<open>Signal\<close> and \<open>Database\<close> live in
  \<open>@/data/db\<close>, which is not among the sources. The records carry the fields that the
  service and the spec name; every further field of an entity (image, gallery, price level
  and so on) is kept in \<open>extra\<close>, a map from field name to value, so that object spread
  acts on it field by field.
\<close>

record day_hours =
  h_open :: string
  h_close :: string
  h_closed :: bool

type_synonym schedule = "string \<rightharpoonup> day_hours"

record 'v entity =
  e_id :: string
  e_type :: string
  area :: string
  tags :: "string list"
  title :: string
  short_description :: string
  rating :: real
  rating_count :: nat
  status :: string
  work_hours :: "schedule option"
  last_confirmed_at :: "string option"
  created_at :: string
  updated_at :: string
  extra :: "string \<rightharpoonup> 'v"

text \<open>
  \<open>signal_fields\<close> is \<open>Omit<Signal, 'id' | 'created_at'>\<close>, the argument of \<open>addSignal\<close>;
  \<open>s_extra\<close> holds whatever else a signal carries.
\<close>

record 'v signal_fields =
  entity_id :: string
  s_type :: string
  s_extra :: "string \<rightharpoonup> 'v"

record 'v signal = "'v signal_fields" +
  s_id :: string
  s_created_at :: string

record 'v database =
  entities :: "'v entity list"
  signals :: "'v signal list"

section \<open>Queries\<close>

text \<open>The optional argument of \<open>getEntities\<close>; an absent property is \<open>None\<close>.\<close>

record filters =
  f_type :: "string option"
  f_area :: "string option"
  f_tags :: "string list option"
  f_search :: "string option"
  f_status :: "string option"

text \<open>
  \<open>if (filters?.p)\<close> for a string property: the branch is taken when the argument and the
  property are present and the string is not empty.
\<close>

fun truthy :: "filters option \<Rightarrow> (filters \<Rightarrow> string option) \<Rightarrow> string option" where
  "truthy None p = None"
| "truthy (Some f) p = (case p f of None \<Rightarrow> None | Some s \<Rightarrow> if s = [] then None else Some s)"

text \<open>\<open>filters?.tags && filters.tags.length > 0\<close>.\<close>

fun truthy_tags :: "filters option \<Rightarrow> string list option" where
  "truthy_tags None = None"
| "truthy_tags (Some f) = (case f_tags f of None \<Rightarrow> None | Some ts \<Rightarrow> if length ts > 0 then Some ts else None)"

text \<open>The comparator \<open>(a, b) => b.rating - a.rating\<close>.\<close>

definition by_rating :: "'v entity \<Rightarrow> 'v entity \<Rightarrow> real" where
  "by_rating a b = rating b - rating a"

text \<open>
  \<open>getEntities\<close>. \<open>toLowerCase\<close> is the string method of the same name; its case mapping
  is the platform's, so it is an argument here and every result below holds for any mapping.
\<close>

definition getEntities ::
  "(string \<Rightarrow> string) \<Rightarrow> 'v database \<Rightarrow> filters option \<Rightarrow> 'v entity list" where
  "getEntities toLowerCase db fs =
    (let es = filter (\<lambda>e. status e \<noteq> ''archived'') (entities db);
         es = (case truthy fs f_type of None \<Rightarrow> es
               | Some t \<Rightarrow> filter (\<lambda>e. e_type e = t) es);
         es = (case truthy fs f_area of None \<Rightarrow> es
               | Some a \<Rightarrow> filter (\<lambda>e. area e = a) es);
         es = (case truthy_tags fs of None \<Rightarrow> es
               | Some ts \<Rightarrow> filter (\<lambda>e. list_ex (\<lambda>tag. tag \<in> set (tags e)) ts) es);
         es = (case truthy fs f_search of None \<Rightarrow> es
               | Some q \<Rightarrow>
                   (let search = toLowerCase q
                    in filter (\<lambda>e. str_includes (toLowerCase (title e)) search
                                 \<or> str_includes (toLowerCase (short_description e)) search
                                 \<or> list_ex (\<lambda>tag. str_includes (toLowerCase tag) search) (tags e)) es));
         es = (case truthy fs f_status of None \<Rightarrow> es
               | Some s \<Rightarrow> filter (\<lambda>e. status e = s) es)
     in array_sort by_rating es)"

text \<open>\<open>getPopular\<close>; the argument is \<open>None\<close> when the caller passes no limit.\<close>

definition getPopular :: "'v database \<Rightarrow> number option \<Rightarrow> 'v entity list" where
  "getPopular db limit =
    slice0 (array_sort by_rating (filter (\<lambda>e. status e = ''active'') (entities db)))
      (case limit of None \<Rightarrow> Num 6 | Some l \<Rightarrow> l)"

section \<open>Mutations\<close>

text \<open>
  The service reads the clock with \<open>Date.now()\<close> and \<open>new Date().toISOString()\<close>. Every
  read is an argument of the operation that makes it, in the order of the reads:
  milliseconds as \<^typ>\<open>int\<close>, ISO strings as \<^typ>\<open>string\<close>. The store \<open>db\<close> is passed in and
  returned.
\<close>

text \<open>The decimal rendering of a number inside a template string.\<close>

fun show_nat :: "nat \<Rightarrow> string" where
  "show_nat n =
     (if n < 10 then [''0123456789'' ! n]
      else show_nat (n div 10) @ [''0123456789'' ! (n mod 10)])"

declare show_nat.simps [simp del]

definition show_int :: "int \<Rightarrow> string" where
  "show_int i = (if i < 0 then CHR ''-'' # show_nat (nat (- i)) else show_nat (nat i))"

text \<open>
  \<open>createEntity\<close>: the spread of the argument, then \<open>id\<close>, \<open>created_at\<close> and \<open>updated_at\<close>
  written over it, and a push to the collection.
\<close>

definition createEntity ::
  "'v database \<Rightarrow> int \<Rightarrow> string \<Rightarrow> string \<Rightarrow> 'v entity \<Rightarrow> 'v database \<times> 'v entity" where
  "createEntity db now_ms t_created t_updated entity =
    (let newEntity = entity\<lparr>e_id := ''entity-'' @ show_int now_ms,
                               created_at := t_created,
                               updated_at := t_updated\<rparr>
     in (db\<lparr>entities := entities db @ [newEntity]\<rparr>, newEntity))"

text \<open>
  \<open>Partial<Entity>\<close>: each property is either absent (\<open>None\<close>) or supplied with a value.
  \<open>work_hours\<close> and \<open>last_confirmed_at\<close> are optional in the entity itself, so a supplied
  value may in turn be the absent one.
\<close>

record 'v updates =
  u_id :: "string option"
  u_type :: "string option"
  u_area :: "string option"
  u_tags :: "string list option"
  u_title :: "string option"
  u_short_description :: "string option"
  u_rating :: "real option"
  u_rating_count :: "nat option"
  u_status :: "string option"
  u_work_hours :: "schedule option option"
  u_last_confirmed_at :: "string option option"
  u_created_at :: "string option"
  u_updated_at :: "string option"
  u_extra :: "string \<rightharpoonup> 'v"

fun supplied :: "'a option \<Rightarrow> 'a \<Rightarrow> 'a" where
  "supplied None old = old"
| "supplied (Some v) old = v"

text \<open>The object spread \<open>{...e, ...updates}\<close>.\<close>

definition spread :: "'v entity \<Rightarrow> 'v updates \<Rightarrow> 'v entity" where
  "spread e u =
    \<lparr>e_id = supplied (u_id u) (e_id e),
     e_type = supplied (u_type u) (e_type e),
     area = supplied (u_area u) (area e),
     tags = supplied (u_tags u) (tags e),
     title = supplied (u_title u) (title e),
     short_description = supplied (u_short_description u) (short_description e),
     rating = supplied (u_rating u) (rating e),
     rating_count = supplied (u_rating_count u) (rating_count e),
     status = supplied (u_status u) (status e),
     work_hours = supplied (u_work_hours u) (work_hours e),
     last_confirmed_at = supplied (u_last_confirmed_at u) (last_confirmed_at e),
     created_at = supplied (u_created_at u) (created_at e),
     updated_at = supplied (u_updated_at u) (updated_at e),
     extra = extra e ++ u_extra u\<rparr>"

text \<open>\<open>updateEntity\<close>; the second component is the returned entity, \<open>None\<close> for \<open>undefined\<close>.\<close>

definition updateEntity ::
  "'v database \<Rightarrow> string \<Rightarrow> string \<Rightarrow> 'v updates \<Rightarrow> 'v database \<times> 'v entity option" where
  "updateEntity db now i updates =
    (case findIndex (\<lambda>e. e_id e = i) (entities db) of
       None \<Rightarrow> (db, None)
     | Some index \<Rightarrow>
         (let e = (spread (entities db ! index) updates)\<lparr>updated_at := now\<rparr>
          in (db\<lparr>entities := (entities db)[index := e]\<rparr>, Some e)))"

text \<open>\<open>deleteEntity\<close>: two assignments to the stored object.\<close>

definition deleteEntity ::
  "'v database \<Rightarrow> string \<Rightarrow> string \<Rightarrow> 'v database \<times> bool" where
  "deleteEntity db now i =
    (case findIndex (\<lambda>e. e_id e = i) (entities db) of
       None \<Rightarrow> (db, False)
     | Some index \<Rightarrow>
         (let es = entities db;
              es = es[index := (es ! index)\<lparr>status := ''archived''\<rparr>];
              es = es[index := (es ! index)\<lparr>updated_at := now\<rparr>]
          in (db\<lparr>entities := es\<rparr>, True)))"

text \<open>
  \<open>addSignal\<close>. \<open>db.entities.find\<close> returns the first stored object with the signal's
  \<open>entity_id\<close>, and the assignments that follow change that object in the collection; here
  it is addressed by its index. The clock is read for the signal's id, for its
  \<open>created_at\<close>, for \<open>last_confirmed_at\<close> and for \<open>updated_at\<close>.
\<close>

definition addSignal ::
  "'v database \<Rightarrow> int \<Rightarrow> string \<Rightarrow> string \<Rightarrow> string \<Rightarrow> 'v signal_fields
     \<Rightarrow> 'v database \<times> 'v signal" where
  "addSignal db now_ms t_created t_confirmed t_updated signal =
    (let newSignal = \<lparr>entity_id = entity_id signal, s_type = s_type signal,
                       s_extra = s_extra signal,
                       s_id = ''signal-'' @ show_int now_ms, s_created_at = t_created\<rparr>;
         db = db\<lparr>signals := signals db @ [newSignal]\<rparr>
     in case findIndex (\<lambda>e. e_id e = entity_id signal) (entities db) of
          None \<Rightarrow> (db, newSignal)
        | Some k \<Rightarrow>
            (let es = entities db;
                 es = (if s_type signal = ''confirm''
                       then es[k := (es ! k)\<lparr>last_confirmed_at := Some t_confirmed\<rparr>]
                       else es);
                 es = es[k := (es ! k)\<lparr>updated_at := t_updated\<rparr>]
             in (db\<lparr>entities := es\<rparr>, newSignal)))"

section \<open>The list request\<close>

text \<open>
  \<open>parseInt(s)\<close> without a radix: leading blanks are skipped, a sign is read, a \<open>0x\<close> or
  \<open>0X\<close> prefix selects base 16, and the longest run of digits is the value; no digit at
  all gives \<open>NaN\<close>. Blanks are the ASCII ones, and the value is the exact integer.
\<close>

definition is_blank :: "char \<Rightarrow> bool" where
  "is_blank c = (c \<in> set [CHR 0x09, CHR 0x0A, CHR 0x0B, CHR 0x0C, CHR 0x0D, CHR '' ''])"

definition digit_of :: "nat \<Rightarrow> char \<Rightarrow> nat option" where
  "digit_of radix c =
    (let n = (of_char c :: nat);
         d = (if 48 \<le> n \<and> n \<le> 57 then Some (n - 48)
              else if 97 \<le> n \<and> n \<le> 122 then Some (n - 87)
              else if 65 \<le> n \<and> n \<le> 90 then Some (n - 55)
              else None)
     in case d of None \<Rightarrow> None | Some v \<Rightarrow> if v < radix then Some v else None)"

definition digits_value :: "nat \<Rightarrow> string \<Rightarrow> nat" where
  "digits_value radix z =
    foldl (\<lambda>acc c. acc * radix + (case digit_of radix c of None \<Rightarrow> 0 | Some d \<Rightarrow> d)) 0 z"

definition parseInt :: "string \<Rightarrow> number" where
  "parseInt str =
    (let s = dropWhile is_blank str;
         negative = startsWith s ''-'';
         s = (if startsWith s ''+'' \<or> startsWith s ''-'' then tl s else s);
         hex = (startsWith s ''0x'' \<or> startsWith s ''0X'');
         radix = (if hex then 16 else 10);
         s = (if hex then drop 2 s else s);
         z = takeWhile (\<lambda>c. digit_of radix c \<noteq> None) s
     in if z = [] then NaN
        else Num ((if negative then - 1 else 1) * int (digits_value radix z)))"

text \<open>\<open>s.split(c)\<close> for a one-character separator.\<close>

fun split :: "string \<Rightarrow> char \<Rightarrow> string list" where
  "split [] c = [[]]"
| "split (x # xs) c =
     (if x = c then [] # split xs c
      else (case split xs c of [] \<Rightarrow> [[x]] | w # ws \<Rightarrow> (x # w) # ws))"

text \<open>
  The query string of \<open>GET /api/entities\<close>: \<open>searchParams.get\<close> gives \<open>null\<close> (\<open>None\<close>)
  or the parameter's string.
\<close>

record searchParams =
  p_type :: "string option"
  p_area :: "string option"
  p_tags :: "string option"
  p_q :: "string option"
  p_status :: "string option"
  p_popular :: "string option"
  p_limit :: "string option"

text \<open>\<open>x || undefined\<close> and \<open>x || '100'\<close> on a string or \<open>null\<close>.\<close>

fun or_undefined :: "string option \<Rightarrow> string option" where
  "or_undefined None = None"
| "or_undefined (Some s) = (if s = [] then None else Some s)"

fun or_default :: "string option \<Rightarrow> string \<Rightarrow> string" where
  "or_default None d = d"
| "or_default (Some s) d = (if s = [] then d else s)"

definition request_filters :: "searchParams \<Rightarrow> filters" where
  "request_filters sp =
    \<lparr>f_type = or_undefined (p_type sp),
     f_area = or_undefined (p_area sp),
     f_tags = map_option (\<lambda>s. split s CHR '','') (p_tags sp),
     f_search = or_undefined (p_q sp),
     f_status = or_undefined (p_status sp)\<rparr>"

text \<open>
  The \<open>GET\<close> handler: the list of entities of the response; its \<open>total\<close> is the length of
  that list.
\<close>

definition GET :: "(string \<Rightarrow> string) \<Rightarrow> 'v database \<Rightarrow> searchParams \<Rightarrow> 'v entity list" where
  "GET toLowerCase db sp =
    (let filters = request_filters sp;
         popular = (p_popular sp = Some ''true'');
         limit = parseInt (or_default (p_limit sp) ''100'')
     in if popular then getPopular db (Some limit)
        else slice0 (getEntities toLowerCase db (Some filters)) limit)"

section \<open>Work hours\<close>

text \<open>
  The local-time view of \<open>new Date()\<close>: weekday (0 is Sunday), hours and minutes.
\<close>

record date =
  getDay :: nat
  getHours :: nat
  getMinutes :: nat

definition dayNames :: "string list" where
  "dayNames = [''sunday'', ''monday'', ''tuesday'', ''wednesday'', ''thursday'', ''friday'',
               ''saturday'']"

text \<open>
  \<open>Number(s)\<close> on the strings a schedule holds: a run of decimal digits is its value and the
  empty string is 0. Every other string is \<open>NaN\<close> here; the platform reads some of them
  (signs, fractions, exponents, other bases, surrounding blanks) as numbers, and the results
  below that depend on \<open>Number\<close> are stated for digit strings only.
\<close>

definition is_digits :: "string \<Rightarrow> bool" where
  "is_digits s = list_all (\<lambda>c. digit_of 10 c \<noteq> None) s"

definition Number :: "string \<Rightarrow> number" where
  "Number s = (if is_digits s then Num (int (digits_value 10 s)) else NaN)"

text \<open>An array element by position, \<open>undefined\<close> read as \<open>NaN\<close> in arithmetic.\<close>

fun element :: "number list \<Rightarrow> nat \<Rightarrow> number" where
  "element [] i = NaN"
| "element (x # xs) 0 = x"
| "element (x # xs) (Suc i) = element xs i"

definition minutes_of :: "string \<Rightarrow> number" where
  "minutes_of hhmm =
    (let parts = map Number (split hhmm CHR '':'')
     in num_add (num_mul (element parts 0) (Num 60)) (element parts 1))"

text \<open>
  \<open>dayNames[now.getDay()]\<close> as a property key; an index outside the table gives the key
  \<open>undefined\<close>.
\<close>

definition currentDay :: "date \<Rightarrow> string" where
  "currentDay now =
    (if getDay now < length dayNames then dayNames ! getDay now else ''undefined'')"

text \<open>\<open>isOpenNow\<close>: \<open>None\<close> is \<open>null\<close>.\<close>

definition isOpenNow :: "'v entity \<Rightarrow> date \<Rightarrow> bool option" where
  "isOpenNow entity now =
    (case work_hours entity of
       None \<Rightarrow> None
     | Some wh \<Rightarrow>
        (case wh (currentDay now) of
           None \<Rightarrow> Some False
         | Some todayHours \<Rightarrow>
             if h_closed todayHours then Some False
             else
               (let currentTime = Num (int (getHours now * 60 + getMinutes now));
                    openTime = minutes_of (h_open todayHours);
                    closeTime = minutes_of (h_close todayHours)
                in Some (num_ge currentTime openTime \<and> num_lt currentTime closeTime))))"

section \<open>Example data\<close>

text \<open>
  The entities of the spec's example: A (rating 4.5, active), B (4.8, flagged) and
  C (3.0, active, tagged beach); D is an archived one. \<open>lower_ascii\<close> is the case mapping
  on ASCII letters.
\<close>

definition lower_ascii :: "string \<Rightarrow> string" where
  "lower_ascii s =
    map (\<lambda>c. case map_of (zip ''ABCDEFGHIJKLMNOPQRSTUVWXYZ'' ''abcdefghijklmnopqrstuvwxyz'') c of
               None \<Rightarrow> c | Some l \<Rightarrow> l) s"

definition blank_entity :: "unit entity" where
  "blank_entity =
    \<lparr>e_id = [], e_type = ''place'', area = ''north'', tags = [], title = ''Untitled'',
     short_description = [], rating = 0, rating_count = 0, status = ''active'',
     work_hours = None, last_confirmed_at = None, created_at = ''2024-01-01T00:00:00.000Z'',
     updated_at = ''2024-01-01T00:00:00.000Z'', extra = Map.empty\<rparr>"

definition entity_A :: "unit entity" where
  "entity_A = blank_entity\<lparr>e_id := ''a'', rating := 9 / 2\<rparr>"

definition entity_B :: "unit entity" where
  "entity_B = blank_entity\<lparr>e_id := ''b'', rating := 24 / 5, status := ''flagged''\<rparr>"

definition entity_C :: "unit entity" where
  "entity_C = blank_entity\<lparr>e_id := ''c'', rating := 3, tags := [''beach'']\<rparr>"

definition entity_D :: "unit entity" where
  "entity_D = blank_entity\<lparr>e_id := ''d'', rating := 5, status := ''archived''\<rparr>"

definition example_db :: "unit database" where
  "example_db = \<lparr>entities = [entity_A, entity_B, entity_C, entity_D], signals = []\<rparr>"

definition no_filters :: filters where
  "no_filters = \<lparr>f_type = None, f_area = None, f_tags = None, f_search = None, f_status = None\<rparr>"

definition archived_filter :: filters where
  "archived_filter = no_filters\<lparr>f_status := Some ''archived''\<rparr>"

text \<open>The spec's schedule: Monday from 09:00 to 17:00, no other day.\<close>

definition monday_schedule :: schedule where
  "monday_schedule = [''monday'' \<mapsto> \<lparr>h_open = ''09:00'', h_close = ''17:00'', h_closed = False\<rparr>]"

definition entity_W :: "unit entity" where
  "entity_W = blank_entity\<lparr>e_id := ''w'', work_hours := Some monday_schedule\<rparr>"

definition monday_at :: "nat \<Rightarrow> nat \<Rightarrow> date" where
  "monday_at h m = \<lparr>getDay = 1, getHours = h, getMinutes = m\<rparr>"

definition tuesday_at :: "nat \<Rightarrow> nat \<Rightarrow> date" where
  "tuesday_at h m = \<lparr>getDay = 2, getHours = h, getMinutes = m\<rparr>"

text \<open>Update payloads: the empty one, and one that supplies a status only.\<close>

definition no_updates :: "'v updates" where
  "no_updates =
    \<lparr>u_id = None, u_type = None, u_area = None, u_tags = None, u_title = None,
     u_short_description = None, u_rating = None, u_rating_count = None, u_status = None,
     u_work_hours = None, u_last_confirmed_at = None, u_created_at = None,
     u_updated_at = None, u_extra = Map.empty\<rparr>"

definition only_status :: "string \<Rightarrow> 'v updates" where
  "only_status s = no_updates\<lparr>u_status := Some s\<rparr>"

definition empty_db :: "unit database" where
  "empty_db = \<lparr>entities = [], signals = []\<rparr>"

definition signal_for :: "string \<Rightarrow> string \<Rightarrow> unit signal_fields" where
  "signal_for i t = \<lparr>entity_id = i, s_type = t, s_extra = Map.empty\<rparr>"

definition no_params :: searchParams where
  "no_params = \<lparr>p_type = None, p_area = None, p_tags = None, p_q = None, p_status = None,
                 p_popular = None, p_limit = None\<rparr>"

text \<open>A request for the popular view that also carries a status filter.\<close>

definition popular_params :: searchParams where
  "popular_params =
    no_params\<lparr>p_popular := Some ''true'', p_status := Some ''flagged'', p_limit := Some ''1''\<rparr>"

section \<open>Sorting and searching an array\<close>

lemma sort_insert_insort: "sort_insert by_rating x ys = insort_key (\<lambda>e. - rating e) x ys"
  by (induction ys) (auto simp: by_rating_def)

lemma array_sort_sort_key: "array_sort by_rating xs = sort_key (\<lambda>e. - rating e) xs"
  by (induction xs) (auto simp: sort_insert_insort)

lemma set_array_sort: "set (array_sort by_rating xs) = set xs"
  by (simp add: array_sort_sort_key)

lemma length_array_sort: "length (array_sort by_rating xs) = length xs"
  by (simp add: array_sort_sort_key)

lemma mset_array_sort: "mset (array_sort by_rating xs) = mset xs"
  by (simp add: array_sort_sort_key)

lemma array_sort_descending:
  "sorted_wrt (\<lambda>a b. rating a \<ge> rating b) (array_sort by_rating xs)"
proof -
  have "sorted (map (\<lambda>e. - rating e) (sort_key (\<lambda>e. - rating e) xs))"
    by (rule sorted_sort_key)
  then show ?thesis
    by (simp add: array_sort_sort_key sorted_map sorted_wrt_iff_nth_less)
qed

text \<open>Entities of equal rating keep the order they had before the sort.\<close>

lemma array_sort_stable:
  "filter (\<lambda>e. rating e = r) (array_sort by_rating xs) = filter (\<lambda>e. rating e = r) xs"
  using sort_key_stable [of "\<lambda>e. - rating e" "- r" xs]
  by (simp add: array_sort_sort_key)

text \<open>\<open>findIndex\<close> returns the first position that satisfies the predicate.\<close>

lemma findIndex_Some:
  "findIndex p xs = Some k \<longleftrightarrow> k < length xs \<and> p (xs ! k) \<and> (\<forall>j<k. \<not> p (xs ! j))"
proof (induction xs arbitrary: k)
  case Nil
  then show ?case by simp
next
  case (Cons x xs)
  show ?case
  proof (cases "p x")
    case True
    then show ?thesis by (cases k) auto
  next
    case False
    then show ?thesis
      using Cons.IH
      apply (cases k)
       apply (auto simp: nth_Cons split: nat.splits)
      done
  qed
qed

lemma findIndex_None: "findIndex p xs = None \<longleftrightarrow> (\<forall>x\<in>set xs. \<not> p x)"
  by (induction xs) auto

lemmas example_defs = example_db_def entity_A_def entity_B_def entity_C_def entity_D_def
  blank_entity_def no_filters_def no_params_def archived_filter_def

section \<open>Properties of the query pipeline\<close>

lemma getEntities_no_archived:
  "e \<in> set (getEntities lc db fs) \<Longrightarrow> status e \<noteq> ''archived''"
  by (auto simp: getEntities_def Let_def set_array_sort split: option.splits)

lemma getEntities_status:
  "truthy fs f_status = Some s \<Longrightarrow> e \<in> set (getEntities lc db fs) \<Longrightarrow> status e = s"
  by (auto simp: getEntities_def Let_def set_array_sort split: option.splits)

lemma getEntities_descending:
  "sorted_wrt (\<lambda>a b. rating a \<ge> rating b) (getEntities lc db fs)"
  by (simp add: getEntities_def Let_def array_sort_descending)

text \<open>The spec's example: the unfiltered list and the list of one tag.\<close>

lemma example_list_all:
  "getEntities lower_ascii example_db None = [entity_B, entity_A, entity_C]"
  by (simp add: getEntities_def example_defs by_rating_def)

lemma example_list_beach:
  "getEntities lower_ascii example_db (Some (no_filters\<lparr>f_tags := Some [''beach'']\<rparr>)) = [entity_C]"
  by (simp add: getEntities_def example_defs by_rating_def)

lemma example_search_ignores_case:
  "getEntities lower_ascii example_db (Some (no_filters\<lparr>f_search := Some ''BEA''\<rparr>)) = [entity_C]"
  by (simp add: getEntities_def example_defs by_rating_def lower_ascii_def)

text \<open>
  C1, as the spec states it: a query whose status filter asks for \<open>archived\<close> returns exactly
  the archived entities that match the other filters. The code does otherwise: the entity D
  of the example is archived and passes every other filter, and a query for status
  \<open>archived\<close> does not return it.
\<close>

theorem C1_archived_request_counterexample:
  "status entity_D = ''archived'' \<and> entity_D \<in> set (entities example_db) \<and>
   f_status archived_filter = Some ''archived'' \<and>
   entity_D \<notin> set (getEntities lower_ascii example_db (Some archived_filter))"
  by (simp add: getEntities_def example_defs by_rating_def)

text \<open>
  C1, amended: \<open>getEntities\<close> removes the archived entities first and whatever the filters
  are, so no archived entity is ever in its result, and a query whose status filter asks for
  \<open>archived\<close> returns the empty list.
\<close>

theorem C1_archived_never_listed:
  "(e \<in> set (getEntities lc db fs) \<longrightarrow> status e \<noteq> ''archived'') \<and>
   (truthy fs f_status = Some ''archived'' \<longrightarrow> getEntities lc db fs = [])"
proof (intro conjI impI)
  assume "e \<in> set (getEntities lc db fs)"
  then show "status e \<noteq> ''archived''" by (rule getEntities_no_archived)
next
  assume a: "truthy fs f_status = Some ''archived''"
  show "getEntities lc db fs = []"
  proof (cases "getEntities lc db fs")
    case Nil
    then show ?thesis .
  next
    case (Cons x xs)
    then have x: "x \<in> set (getEntities lc db fs)" by simp
    from getEntities_status [OF a x] getEntities_no_archived [OF x] show ?thesis by simp
  qed
qed

theorem C1_archived_never_listed_witness:
  "entity_A \<in> set (getEntities lower_ascii example_db None) \<and>
   status entity_A \<noteq> ''archived'' \<and>
   truthy (Some archived_filter) f_status = Some ''archived'' \<and>
   getEntities lower_ascii example_db (Some archived_filter) = []"
proof -
  have m: "entity_A \<in> set (getEntities lower_ascii example_db None)"
    by (simp add: example_list_all)
  have t: "truthy (Some archived_filter) f_status = Some ''archived''"
    by (simp add: example_defs)
  from m t C1_archived_never_listed [of entity_A lower_ascii example_db None]
    C1_archived_never_listed [of entity_A lower_ascii example_db "Some archived_filter"]
  show ?thesis by blast
qed

section \<open>The list request and the popular view\<close>

lemma slice0_nonneg: "0 \<le> n \<Longrightarrow> slice0 xs (Num n) = take (nat n) xs"
  by (cases "n \<le> int (length xs)") (simp_all add: min_def)

lemma set_slice0: "set (slice0 xs l) \<subseteq> set xs"
  by (cases l) (auto dest: in_set_takeD)

lemma sorted_wrt_slice0: "sorted_wrt P xs \<Longrightarrow> sorted_wrt P (slice0 xs l)"
  by (cases l) (auto simp: sorted_wrt_take)

lemma parseInt_100: "parseInt ''100'' = Num 100"
  by (simp add: parseInt_def is_blank_def digit_of_def digits_value_def)

lemma or_default_absent: "or_undefined p = None \<Longrightarrow> or_default p d = d"
  by (cases p) (auto split: if_splits)

text \<open>
  C2, as the spec states it: the length of the listed result never exceeds the effective
  limit. The request \<open>?limit=-1\<close> has the effective limit -1; \<open>slice(0, -1)\<close> drops the last
  entry only, and two of the three listed entities of the example are returned.
\<close>

theorem C2_list_negative_limit_counterexample:
  "parseInt (or_default (p_limit (no_params\<lparr>p_limit := Some ''-1''\<rparr>)) ''100'') = Num (- 1) \<and>
   GET lower_ascii example_db (no_params\<lparr>p_limit := Some ''-1''\<rparr>) = [entity_B, entity_A] \<and>
   \<not> int (length (GET lower_ascii example_db (no_params\<lparr>p_limit := Some ''-1''\<rparr>))) \<le> - 1"
  by (simp add: GET_def request_filters_def getEntities_def example_defs by_rating_def
      parseInt_def is_blank_def digit_of_def digits_value_def)

text \<open>
  C2, amended: a request that is not for the popular view runs the filter pipeline, sorts,
  and then applies \<open>slice(0, limit)\<close>, where \<open>limit\<close> is \<open>parseInt\<close> of the \<open>limit\<close> parameter and
  of \<open>'100'\<close> when the parameter is absent or empty. With no limit supplied the result is the
  first 100 entries; whenever the limit is a non-negative integer \<open>n\<close> the result is the first
  \<open>n\<close> entries of the sorted list, so its length does not exceed \<open>n\<close>. The result is in
  descending order of rating.
\<close>

theorem C2_list_truncates:
  assumes "p_popular sp \<noteq> Some ''true''"
  shows "GET lc db sp =
           slice0 (getEntities lc db (Some (request_filters sp)))
             (parseInt (or_default (p_limit sp) ''100'')) \<and>
         (or_undefined (p_limit sp) = None \<longrightarrow>
            GET lc db sp = take 100 (getEntities lc db (Some (request_filters sp)))) \<and>
         (parseInt (or_default (p_limit sp) ''100'') = Num n \<and> 0 \<le> n \<longrightarrow>
            GET lc db sp = take (nat n) (getEntities lc db (Some (request_filters sp))) \<and>
            int (length (GET lc db sp)) \<le> n) \<and>
         sorted_wrt (\<lambda>a b. rating a \<ge> rating b) (GET lc db sp)"
proof -
  let ?es = "getEntities lc db (Some (request_filters sp))"
  have g: "GET lc db sp = slice0 ?es (parseInt (or_default (p_limit sp) ''100''))"
    using assms by (simp add: GET_def Let_def)
  have d: "GET lc db sp = take 100 ?es" if "or_undefined (p_limit sp) = None"
    using that g by (simp add: or_default_absent parseInt_100 slice0_nonneg del: slice0.simps)
  have l: "GET lc db sp = take (nat n) ?es \<and> int (length (GET lc db sp)) \<le> n"
    if "parseInt (or_default (p_limit sp) ''100'') = Num n \<and> 0 \<le> n"
    using that g by (auto simp add: slice0_nonneg simp del: slice0.simps)
  have s: "sorted_wrt (\<lambda>a b. rating a \<ge> rating b) (GET lc db sp)"
    unfolding g by (rule sorted_wrt_slice0) (rule getEntities_descending)
  from g d l s show ?thesis by blast
qed

lemma example_limit_2: "parseInt (or_default (p_limit (no_params\<lparr>p_limit := Some ''2''\<rparr>)) ''100'') = Num 2"
  by (simp add: example_defs parseInt_def is_blank_def digit_of_def digits_value_def)

lemma example_filters: "request_filters no_params = no_filters"
  "request_filters (no_params\<lparr>p_limit := l\<rparr>) = no_filters"
  by (simp_all add: request_filters_def example_defs)

lemma example_list_no_filters:
  "getEntities lower_ascii example_db (Some no_filters) = [entity_B, entity_A, entity_C]"
  by (simp add: getEntities_def example_defs by_rating_def)

theorem C2_list_truncates_witness:
  "p_popular no_params \<noteq> Some ''true'' \<and> or_undefined (p_limit no_params) = None \<and>
   GET lower_ascii example_db no_params = [entity_B, entity_A, entity_C] \<and>
   parseInt (or_default (p_limit (no_params\<lparr>p_limit := Some ''2''\<rparr>)) ''100'') = Num 2 \<and>
   GET lower_ascii example_db (no_params\<lparr>p_limit := Some ''2''\<rparr>) = [entity_B, entity_A]"
proof -
  have p: "p_popular no_params \<noteq> Some ''true''"
    "p_popular (no_params\<lparr>p_limit := Some ''2''\<rparr>) \<noteq> Some ''true''"
    "or_undefined (p_limit no_params) = None"
    by (simp_all add: example_defs)
  have z: "(0::int) \<le> 2" by simp
  have d: "GET lower_ascii example_db no_params =
             take 100 (getEntities lower_ascii example_db (Some (request_filters no_params)))"
    using C2_list_truncates [OF p(1), of lower_ascii example_db 0] p(3) by blast
  have l: "GET lower_ascii example_db (no_params\<lparr>p_limit := Some ''2''\<rparr>) =
             take (nat 2) (getEntities lower_ascii example_db
               (Some (request_filters (no_params\<lparr>p_limit := Some ''2''\<rparr>))))"
    using C2_list_truncates [OF p(2), of lower_ascii example_db 2] example_limit_2 z by blast
  from d l p example_limit_2 show ?thesis
    by (simp add: example_filters example_list_no_filters)
qed

text \<open>
  C9, as the spec states it: for every limit, \<open>popular(limit)\<close> returns at most \<open>limit\<close>
  entities. With the limit -1 the example's two active entities are sorted and the last one
  is dropped: one entity is returned, which is more than -1.
\<close>

theorem C9_popular_negative_limit_counterexample:
  "status entity_A = ''active'' \<and> status entity_C = ''active'' \<and>
   getPopular example_db (Some (Num (- 1))) = [entity_A] \<and>
   \<not> int (length (getPopular example_db (Some (Num (- 1))))) \<le> - 1"
  by (simp add: getPopular_def example_defs by_rating_def)

text \<open>
  C9, amended: for every collection, every entity that \<open>getPopular\<close> returns has status
  \<open>active\<close> and the returned list is in descending order of rating, whatever the limit is;
  for every non-negative integer limit \<open>n\<close> the result is the first \<open>n\<close> of the active entities
  so sorted, hence at most \<open>n\<close> entities; with no limit supplied the limit is 6. The
  operation takes no filter, and a request for the popular view passes it the limit only.
\<close>

theorem C9_popular:
  "(e \<in> set (getPopular db limit) \<longrightarrow> status e = ''active'') \<and>
   sorted_wrt (\<lambda>a b. rating a \<ge> rating b) (getPopular db limit) \<and>
   (0 \<le> n \<longrightarrow>
      getPopular db (Some (Num n)) =
        take (nat n) (array_sort by_rating (filter (\<lambda>e. status e = ''active'') (entities db))) \<and>
      int (length (getPopular db (Some (Num n)))) \<le> n) \<and>
   getPopular db None = getPopular db (Some (Num 6)) \<and>
   length (getPopular db None) \<le> 6 \<and>
   (p_popular sp = Some ''true'' \<longrightarrow>
      GET lc db sp = getPopular db (Some (parseInt (or_default (p_limit sp) ''100''))))"
proof -
  let ?act = "array_sort by_rating (filter (\<lambda>e. status e = ''active'') (entities db))"
  let ?l = "case limit of None \<Rightarrow> Num 6 | Some l \<Rightarrow> l"
  have a: "status e = ''active''" if "e \<in> set (getPopular db limit)"
  proof -
    from that have "e \<in> set ?act"
      using set_slice0 [of ?act ?l] by (auto simp: getPopular_def)
    then show ?thesis by (simp add: set_array_sort)
  qed
  have s: "sorted_wrt (\<lambda>a b. rating a \<ge> rating b) (getPopular db limit)"
    unfolding getPopular_def by (rule sorted_wrt_slice0) (rule array_sort_descending)
  have t: "getPopular db (Some (Num n)) = take (nat n) ?act \<and>
           int (length (getPopular db (Some (Num n)))) \<le> n" if "0 \<le> n"
    using that by (simp add: getPopular_def slice0_nonneg del: slice0.simps)
  have d: "getPopular db None = getPopular db (Some (Num 6))"
    by (simp add: getPopular_def)
  have l: "length (getPopular db None) \<le> 6"
    by (simp add: getPopular_def)
  have p: "GET lc db sp = getPopular db (Some (parseInt (or_default (p_limit sp) ''100'')))"
    if "p_popular sp = Some ''true''"
    using that by (simp add: GET_def Let_def)
  from a s t d l p show ?thesis by blast
qed

lemma example_popular_1: "getPopular example_db (Some (Num 1)) = [entity_A]"
  by (simp add: getPopular_def example_defs by_rating_def)

theorem C9_popular_witness:
  "entity_A \<in> set (getPopular example_db (Some (Num 1))) \<and> status entity_A = ''active'' \<and>
   (0::int) \<le> 1 \<and> int (length (getPopular example_db (Some (Num 1)))) \<le> 1 \<and>
   p_popular popular_params = Some ''true'' \<and>
   GET lower_ascii example_db popular_params = [entity_A]"
proof -
  have m: "entity_A \<in> set (getPopular example_db (Some (Num 1)))"
    by (simp add: example_popular_1)
  have z: "(0::int) \<le> 1" by simp
  have p: "p_popular popular_params = Some ''true''"
    by (simp add: popular_params_def no_params_def)
  have l: "parseInt (or_default (p_limit popular_params) ''100'') = Num 1"
    by (simp add: popular_params_def no_params_def parseInt_def is_blank_def digit_of_def
        digits_value_def)
  from C9_popular [where e = entity_A and db = example_db and limit = "Some (Num 1)" and n = 1
      and sp = popular_params and lc = lower_ascii] m z p
  have "status entity_A = ''active'' \<and>
        int (length (getPopular example_db (Some (Num 1)))) \<le> 1 \<and>
        GET lower_ascii example_db popular_params =
          getPopular example_db (Some (parseInt (or_default (p_limit popular_params) ''100'')))"
    by blast
  with m z p l show ?thesis by (simp add: example_popular_1)
qed

section \<open>The open-now evaluator\<close>

lemma colon_not_digit: "is_digits s \<Longrightarrow> CHR '':'' \<notin> set s"
  by (induction s) (auto simp: is_digits_def digit_of_def)

lemma split_no_separator: "c \<notin> set s \<Longrightarrow> split s c = [s]"
  by (induction s) auto

lemma split_at_first: "c \<notin> set s \<Longrightarrow> split (s @ c # t) c = s # split t c"
  by (induction s) auto

lemma minutes_of_digits:
  assumes "is_digits hh" and "is_digits mm"
  shows "minutes_of (hh @ '':'' @ mm) = Num (int (digits_value 10 hh * 60 + digits_value 10 mm))"
proof -
  have "split (hh @ '':'' @ mm) CHR '':'' = [hh, mm]"
    using assms by (simp add: split_at_first split_no_separator colon_not_digit)
  then show ?thesis
    using assms by (simp add: minutes_of_def Number_def)
qed

text \<open>
  C3: an entity without work hours gives \<open>null\<close> (unknown); when the entry of the current
  weekday is absent from the schedule or marked closed the result is \<open>false\<close> (closed);
  otherwise, for opening and closing times written as digits, a colon and digits, the result
  is \<open>true\<close> exactly when the current minutes since midnight lie in the half-open interval
  from the opening minutes to the closing minutes, so the closing instant itself is closed.
\<close>

theorem C3_isOpenNow:
  "(work_hours entity = None \<longrightarrow> isOpenNow entity now = None) \<and>
   (work_hours entity = Some wh \<and>
      (wh (currentDay now) = None \<or> (\<exists>h. wh (currentDay now) = Some h \<and> h_closed h)) \<longrightarrow>
    isOpenNow entity now = Some False) \<and>
   (work_hours entity = Some wh \<and> wh (currentDay now) = Some h \<and> \<not> h_closed h \<and>
      h_open h = oh @ '':'' @ om \<and> h_close h = ch @ '':'' @ cm \<and>
      is_digits oh \<and> is_digits om \<and> is_digits ch \<and> is_digits cm \<longrightarrow>
    isOpenNow entity now =
      Some (digits_value 10 oh * 60 + digits_value 10 om \<le> getHours now * 60 + getMinutes now \<and>
            getHours now * 60 + getMinutes now < digits_value 10 ch * 60 + digits_value 10 cm))"
proof (intro conjI impI)
  assume "work_hours entity = None"
  then show "isOpenNow entity now = None" by (simp add: isOpenNow_def)
next
  assume "work_hours entity = Some wh \<and>
    (wh (currentDay now) = None \<or> (\<exists>h. wh (currentDay now) = Some h \<and> h_closed h))"
  then show "isOpenNow entity now = Some False" by (auto simp: isOpenNow_def)
next
  assume a: "work_hours entity = Some wh \<and> wh (currentDay now) = Some h \<and> \<not> h_closed h \<and>
      h_open h = oh @ '':'' @ om \<and> h_close h = ch @ '':'' @ cm \<and>
      is_digits oh \<and> is_digits om \<and> is_digits ch \<and> is_digits cm"
  from a have ho: "h_open h = oh @ '':'' @ om" and hc: "h_close h = ch @ '':'' @ cm"
    by blast+
  have o: "minutes_of (h_open h) = Num (int (digits_value 10 oh * 60 + digits_value 10 om))"
    unfolding ho using a by (intro minutes_of_digits) blast+
  have c: "minutes_of (h_close h) = Num (int (digits_value 10 ch * 60 + digits_value 10 cm))"
    unfolding hc using a by (intro minutes_of_digits) blast+
  from a have "isOpenNow entity now =
      Some (num_ge (Num (int (getHours now * 60 + getMinutes now))) (minutes_of (h_open h)) \<and>
            num_lt (Num (int (getHours now * 60 + getMinutes now))) (minutes_of (h_close h)))"
    by (simp add: isOpenNow_def Let_def)
  then show "isOpenNow entity now =
      Some (digits_value 10 oh * 60 + digits_value 10 om \<le> getHours now * 60 + getMinutes now \<and>
            getHours now * 60 + getMinutes now < digits_value 10 ch * 60 + digits_value 10 cm)"
    unfolding o c by (simp only: num_ge.simps num_lt.simps of_nat_le_iff of_nat_less_iff)
qed

text \<open>The spec's example: Monday 16:59 and 17:00, a day without entry, no schedule.\<close>

lemma currentDay_monday: "currentDay (monday_at h m) = ''monday''"
  by (simp add: currentDay_def dayNames_def monday_at_def)

lemma currentDay_tuesday: "currentDay (tuesday_at h m) = ''tuesday''"
  by (simp add: currentDay_def dayNames_def tuesday_at_def)

lemma example_digits:
  "is_digits ''09''" "is_digits ''00''" "is_digits ''17''"
  "digits_value 10 ''09'' = 9" "digits_value 10 ''00'' = 0" "digits_value 10 ''17'' = 17"
  by (simp_all add: is_digits_def digit_of_def digits_value_def)

lemma example_open_1659: "isOpenNow entity_W (monday_at 16 59) = Some True"
  by (simp add: isOpenNow_def entity_W_def blank_entity_def monday_schedule_def currentDay_monday
     minutes_of_def Number_def is_digits_def digit_of_def digits_value_def currentDay_def dayNames_def monday_at_def)

lemma example_closed_1700: "isOpenNow entity_W (monday_at 17 0) = Some False"
  by (simp add: isOpenNow_def entity_W_def blank_entity_def monday_schedule_def currentDay_monday
     minutes_of_def Number_def is_digits_def digit_of_def digits_value_def currentDay_def dayNames_def monday_at_def)

lemma example_closed_tuesday: "isOpenNow entity_W (tuesday_at 10 0) = Some False"
  by (simp add: isOpenNow_def entity_W_def blank_entity_def monday_schedule_def currentDay_tuesday)

lemma example_unknown: "isOpenNow entity_A (monday_at 10 0) = None"
  by (simp add: isOpenNow_def entity_A_def blank_entity_def)

theorem C3_isOpenNow_witness:
  "work_hours entity_A = None \<and> isOpenNow entity_A (monday_at 16 59) = None \<and>
   work_hours entity_W = Some monday_schedule \<and>
   monday_schedule (currentDay (tuesday_at 10 0)) = None \<and>
   isOpenNow entity_W (tuesday_at 10 0) = Some False \<and>
   monday_schedule (currentDay (monday_at 16 59)) =
     Some \<lparr>h_open = ''09:00'', h_close = ''17:00'', h_closed = False\<rparr> \<and>
   isOpenNow entity_W (monday_at 16 59) = Some True \<and>
   isOpenNow entity_W (monday_at 17 0) = Some False"
proof -
  let ?h = "\<lparr>h_open = ''09:00'', h_close = ''17:00'', h_closed = False\<rparr>"
  have n: "work_hours entity_A = None"
    by (simp add: entity_A_def blank_entity_def)
  have w: "work_hours entity_W = Some monday_schedule"
    by (simp add: entity_W_def blank_entity_def)
  have t: "monday_schedule (currentDay (tuesday_at 10 0)) = None"
    by (simp add: monday_schedule_def currentDay_tuesday)
  have m: "monday_schedule (currentDay (monday_at hh mm)) = Some ?h" for hh mm
    by (simp add: monday_schedule_def currentDay_monday)
  have f: "\<not> h_closed ?h" "h_open ?h = ''09'' @ '':'' @ ''00''" "h_close ?h = ''17'' @ '':'' @ ''00''"
    by simp_all
  have 1: "isOpenNow entity_A (monday_at 16 59) = None"
    using C3_isOpenNow [of entity_A "monday_at 16 59"] n by blast
  have 2: "isOpenNow entity_W (tuesday_at 10 0) = Some False"
    using C3_isOpenNow [of entity_W "tuesday_at 10 0" monday_schedule] w t by blast
  have 3: "isOpenNow entity_W (monday_at 16 59) = Some True"
    using C3_isOpenNow [of entity_W "monday_at 16 59" monday_schedule ?h "''09''" "''00''" "''17''" "''00''"]
      w m f example_digits
    by (simp add: monday_at_def)
  have 4: "isOpenNow entity_W (monday_at 17 0) = Some False"
    using C3_isOpenNow [of entity_W "monday_at 17 0" monday_schedule ?h "''09''" "''00''" "''17''" "''00''"]
      w m f example_digits
    by (simp add: monday_at_def)
  from n w t m 1 2 3 4 show ?thesis by simp
qed


section \<open>Properties of the mutations\<close>

lemma findIndex_absent: "i \<notin> set (map e_id xs) \<Longrightarrow> findIndex (\<lambda>e. e_id e = i) xs = None"
  by (auto simp: findIndex_None)

lemma spread_status: "spread e (only_status s) = e\<lparr>status := s\<rparr>"
  by (simp add: spread_def only_status_def no_updates_def)

lemma updateEntity_found:
  "findIndex (\<lambda>e. e_id e = i) (entities db) = Some k \<Longrightarrow>
   updateEntity db now i u =
     (db\<lparr>entities := (entities db)[k := (spread (entities db ! k) u)\<lparr>updated_at := now\<rparr>]\<rparr>,
      Some ((spread (entities db ! k) u)\<lparr>updated_at := now\<rparr>))"
  by (simp add: updateEntity_def Let_def)

lemma updateEntity_absent:
  "findIndex (\<lambda>e. e_id e = i) (entities db) = None \<Longrightarrow> updateEntity db now i u = (db, None)"
  by (simp add: updateEntity_def)

lemma findIndex_less: "findIndex p xs = Some k \<Longrightarrow> k < length xs"
  by (simp add: findIndex_Some)

lemma deleteEntity_found:
  assumes "findIndex (\<lambda>e. e_id e = i) (entities db) = Some k"
  shows "deleteEntity db now i =
     (db\<lparr>entities := (entities db)[k := (entities db ! k)\<lparr>status := ''archived'', updated_at := now\<rparr>]\<rparr>,
      True)"
  using assms findIndex_less [OF assms] by (simp add: deleteEntity_def Let_def)

lemma deleteEntity_absent:
  "findIndex (\<lambda>e. e_id e = i) (entities db) = None \<Longrightarrow> deleteEntity db now i = (db, False)"
  by (simp add: deleteEntity_def)

lemma addSignal_found:
  assumes "findIndex (\<lambda>e. e_id e = entity_id sg) (entities db) = Some k"
  shows "addSignal db ms tc tf tu sg =
     (\<lparr>entities = (entities db)[k :=
          (if s_type sg = ''confirm'' then (entities db ! k)\<lparr>last_confirmed_at := Some tf\<rparr>
           else entities db ! k)\<lparr>updated_at := tu\<rparr>],
       signals = signals db @
         [\<lparr>entity_id = entity_id sg, s_type = s_type sg, s_extra = s_extra sg,
           s_id = ''signal-'' @ show_int ms, s_created_at = tc\<rparr>]\<rparr>,
      \<lparr>entity_id = entity_id sg, s_type = s_type sg, s_extra = s_extra sg,
       s_id = ''signal-'' @ show_int ms, s_created_at = tc\<rparr>)"
  using assms findIndex_less [OF assms] by (simp add: addSignal_def Let_def)

lemma addSignal_absent:
  "findIndex (\<lambda>e. e_id e = entity_id sg) (entities db) = None \<Longrightarrow>
   addSignal db ms tc tf tu sg =
     (\<lparr>entities = entities db,
       signals = signals db @
         [\<lparr>entity_id = entity_id sg, s_type = s_type sg, s_extra = s_extra sg,
           s_id = ''signal-'' @ show_int ms, s_created_at = tc\<rparr>]\<rparr>,
      \<lparr>entity_id = entity_id sg, s_type = s_type sg, s_extra = s_extra sg,
       s_id = ''signal-'' @ show_int ms, s_created_at = tc\<rparr>)"
  by (simp add: addSignal_def Let_def)

lemma example_ids: "map e_id (entities example_db) = [''a'', ''b'', ''c'', ''d'']"
  by (simp add: example_defs)

lemma example_find_c: "findIndex (\<lambda>e. e_id e = ''c'') (entities example_db) = Some 2"
  by (simp add: example_defs)

lemma example_find_a: "findIndex (\<lambda>e. e_id e = ''a'') (entities example_db) = Some 0"
  by (simp add: example_defs)

lemma map_e_id_update:
  "k < length xs \<Longrightarrow> e_id x = e_id (xs ! k) \<Longrightarrow> map e_id (xs[k := x]) = map e_id xs"
  by (simp add: map_update list_update_same_conv)

text \<open>
  C4, as the spec states it: ids are pairwise distinct in every reachable store, a created
  entity gets an id that no stored entity has, and an id never changes. Two creations that
  read the same millisecond from the clock give the same id; and an update whose payload
  supplies an \<open>id\<close> writes it over the entity's id, here the id of another entity.
\<close>

theorem C4_ids_counterexample:
  "map e_id (entities (fst (createEntity (fst (createEntity empty_db 5 ''t1'' ''t1'' entity_A))
      5 ''t2'' ''t2'' entity_C))) = [''entity-5'', ''entity-5''] \<and>
   map e_id (entities example_db) = [''a'', ''b'', ''c'', ''d''] \<and>
   map e_id (entities (fst (updateEntity example_db ''t1'' ''c'' (no_updates\<lparr>u_id := Some ''a''\<rparr>))))
     = [''a'', ''b'', ''a'', ''d'']"
  by (simp add: createEntity_def updateEntity_def spread_def empty_db_def example_defs no_updates_def
      show_int_def show_nat.simps Let_def)

text \<open>
  C4, amended: \<open>deleteEntity\<close> and \<open>addSignal\<close> leave the id of every entity as it was, and so
  does \<open>updateEntity\<close> whenever its payload supplies no \<open>id\<close>; \<open>createEntity\<close> appends the
  new entity and leaves the stored ones, and their ids, as they were. Ids that are pairwise
  distinct therefore stay so under \<open>deleteEntity\<close>, \<open>addSignal\<close> and updates without an
  \<open>id\<close>.
\<close>

theorem C4_ids_preserved:
  "map e_id (entities (fst (deleteEntity db now i))) = map e_id (entities db) \<and>
   map e_id (entities (fst (addSignal db ms tc tf tu sg))) = map e_id (entities db) \<and>
   (u_id u = None \<longrightarrow>
      map e_id (entities (fst (updateEntity db now i u))) = map e_id (entities db)) \<and>
   entities (fst (createEntity db ms tc tu entity)) =
     entities db @ [snd (createEntity db ms tc tu entity)]"
proof (intro conjI impI)
  show "map e_id (entities (fst (deleteEntity db now i))) = map e_id (entities db)"
  proof (cases "findIndex (\<lambda>e. e_id e = i) (entities db)")
    case None
    then show ?thesis by (simp add: deleteEntity_absent)
  next
    case (Some k)
    with findIndex_less [OF Some] show ?thesis
      by (simp add: deleteEntity_found map_e_id_update)
  qed
next
  show "map e_id (entities (fst (addSignal db ms tc tf tu sg))) = map e_id (entities db)"
  proof (cases "findIndex (\<lambda>e. e_id e = entity_id sg) (entities db)")
    case None
    then show ?thesis by (simp add: addSignal_absent)
  next
    case (Some k)
    with findIndex_less [OF Some] show ?thesis
      by (simp add: addSignal_found map_e_id_update)
  qed
next
  assume u: "u_id u = None"
  show "map e_id (entities (fst (updateEntity db now i u))) = map e_id (entities db)"
  proof (cases "findIndex (\<lambda>e. e_id e = i) (entities db)")
    case None
    then show ?thesis by (simp add: updateEntity_absent)
  next
    case (Some k)
    with findIndex_less [OF Some] u show ?thesis
      by (simp add: updateEntity_found map_e_id_update spread_def)
  qed
next
  show "entities (fst (createEntity db ms tc tu entity)) =
     entities db @ [snd (createEntity db ms tc tu entity)]"
    by (simp add: createEntity_def Let_def)
qed

theorem C4_ids_preserved_witness:
  "u_id (only_status ''flagged'' :: unit updates) = None \<and>
   map e_id (entities (fst (updateEntity example_db ''t1'' ''c'' (only_status ''flagged'')))) =
     [''a'', ''b'', ''c'', ''d'']"
proof -
  have u: "u_id (only_status ''flagged'' :: unit updates) = None"
    by (simp add: only_status_def no_updates_def)
  from C4_ids_preserved [where db = example_db and now = "''t1''" and i = "''c''"
      and u = "only_status ''flagged''"] u
  show ?thesis by (simp add: example_ids)
qed

text \<open>
  C5: for every store and id, \<open>deleteEntity\<close> leaves the store that \<open>updateEntity\<close> with the
  payload \<open>{status: 'archived'}\<close>, read at the same instant, leaves. The collection keeps its
  length. For an absent id the store is unchanged and the results are \<open>false\<close> and
  \<open>undefined\<close>; for a present id the result is \<open>true\<close>, the first entity with that id gets
  status \<open>archived\<close> and \<open>updated_at\<close> set to the instant, and nothing else changes.
\<close>

theorem C5_softDelete:
  "fst (deleteEntity db now i) = fst (updateEntity db now i (only_status ''archived'')) \<and>
   length (entities (fst (deleteEntity db now i))) = length (entities db) \<and>
   (i \<notin> set (map e_id (entities db)) \<longrightarrow>
      deleteEntity db now i = (db, False) \<and>
      updateEntity db now i (only_status ''archived'') = (db, None)) \<and>
   (findIndex (\<lambda>e. e_id e = i) (entities db) = Some k \<longrightarrow>
      snd (deleteEntity db now i) = True \<and>
      entities (fst (deleteEntity db now i)) =
        (entities db)[k := (entities db ! k)\<lparr>status := ''archived'', updated_at := now\<rparr>] \<and>
      signals (fst (deleteEntity db now i)) = signals db)"
proof -
  have eq: "fst (deleteEntity db now i) = fst (updateEntity db now i (only_status ''archived''))"
  proof (cases "findIndex (\<lambda>e. e_id e = i) (entities db)")
    case None
    then show ?thesis by (simp add: deleteEntity_absent updateEntity_absent)
  next
    case (Some j)
    then show ?thesis by (simp add: deleteEntity_found updateEntity_found spread_status)
  qed
  have len: "length (entities (fst (deleteEntity db now i))) = length (entities db)"
    by (cases "findIndex (\<lambda>e. e_id e = i) (entities db)")
      (simp_all add: deleteEntity_absent deleteEntity_found)
  have absent: "deleteEntity db now i = (db, False) \<and>
      updateEntity db now i (only_status ''archived'') = (db, None)"
    if "i \<notin> set (map e_id (entities db))"
    using findIndex_absent [OF that] by (simp add: deleteEntity_absent updateEntity_absent)
  have found: "snd (deleteEntity db now i) = True \<and>
      entities (fst (deleteEntity db now i)) =
        (entities db)[k := (entities db ! k)\<lparr>status := ''archived'', updated_at := now\<rparr>] \<and>
      signals (fst (deleteEntity db now i)) = signals db"
    if "findIndex (\<lambda>e. e_id e = i) (entities db) = Some k"
    using that by (simp add: deleteEntity_found)
  from eq len absent found show ?thesis by blast
qed

theorem C5_softDelete_witness:
  "''zz'' \<notin> set (map e_id (entities example_db)) \<and>
   deleteEntity example_db ''t1'' ''zz'' = (example_db, False) \<and>
   findIndex (\<lambda>e. e_id e = ''c'') (entities example_db) = Some 2 \<and>
   snd (deleteEntity example_db ''t1'' ''c'') = True \<and>
   entities (fst (deleteEntity example_db ''t1'' ''c'')) =
     [entity_A, entity_B, entity_C\<lparr>status := ''archived'', updated_at := ''t1''\<rparr>, entity_D]"
proof -
  have z: "''zz'' \<notin> set (map e_id (entities example_db))"
    by (simp add: example_ids)
  have 1: "deleteEntity example_db ''t1'' ''zz'' = (example_db, False)"
    using C5_softDelete [of example_db "''t1''" "''zz''" 0] z by blast
  have 2: "snd (deleteEntity example_db ''t1'' ''c'') = True \<and>
      entities (fst (deleteEntity example_db ''t1'' ''c'')) =
        (entities example_db)[2 := (entities example_db ! 2)\<lparr>status := ''archived'', updated_at := ''t1''\<rparr>]"
    using C5_softDelete [of example_db "''t1''" "''c''" 2] example_find_c by blast
  have 3: "(entities example_db)[2 := (entities example_db ! 2)\<lparr>status := ''archived'', updated_at := ''t1''\<rparr>]
     = [entity_A, entity_B, entity_C\<lparr>status := ''archived'', updated_at := ''t1''\<rparr>, entity_D]"
    by (simp add: example_db_def numeral_2_eq_2)
  from z 1 2 3 example_find_c show ?thesis by simp
qed

text \<open>
  C6: when no entity has the id, \<open>updateEntity\<close> returns \<open>undefined\<close> and the store is
  unchanged. Otherwise the first entity with the id is replaced, and it is the returned one:
  \<open>updated_at\<close> is the instant, every other field has the supplied value when the payload
  supplies one and its old value when it does not, every other entity of the collection is
  unchanged, and so are the collection's length and the signals.
\<close>

theorem C6_update_frame:
  "(i \<notin> set (map e_id (entities db)) \<longrightarrow> updateEntity db now i u = (db, None)) \<and>
   (findIndex (\<lambda>e. e_id e = i) (entities db) = Some k \<longrightarrow>
      (let db' = fst (updateEntity db now i u); e = entities db ! k; e' = entities db' ! k
       in snd (updateEntity db now i u) = Some e' \<and>
          length (entities db') = length (entities db) \<and>
          (\<forall>j. j \<noteq> k \<longrightarrow> entities db' ! j = entities db ! j) \<and>
          signals db' = signals db \<and>
          updated_at e' = now \<and>
          e_id e' = supplied (u_id u) (e_id e) \<and>
          e_type e' = supplied (u_type u) (e_type e) \<and>
          area e' = supplied (u_area u) (area e) \<and>
          tags e' = supplied (u_tags u) (tags e) \<and>
          title e' = supplied (u_title u) (title e) \<and>
          short_description e' = supplied (u_short_description u) (short_description e) \<and>
          rating e' = supplied (u_rating u) (rating e) \<and>
          rating_count e' = supplied (u_rating_count u) (rating_count e) \<and>
          status e' = supplied (u_status u) (status e) \<and>
          work_hours e' = supplied (u_work_hours u) (work_hours e) \<and>
          last_confirmed_at e' = supplied (u_last_confirmed_at u) (last_confirmed_at e) \<and>
          created_at e' = supplied (u_created_at u) (created_at e) \<and>
          (\<forall>f. extra e' f = (case u_extra u f of None \<Rightarrow> extra e f | Some v \<Rightarrow> Some v))))"
proof (intro conjI impI)
  assume "i \<notin> set (map e_id (entities db))"
  then show "updateEntity db now i u = (db, None)"
    by (simp add: findIndex_absent updateEntity_absent)
next
  assume f: "findIndex (\<lambda>e. e_id e = i) (entities db) = Some k"
  then have k: "k < length (entities db)" by (simp add: findIndex_Some)
  show "let db' = fst (updateEntity db now i u); e = entities db ! k; e' = entities db' ! k
       in snd (updateEntity db now i u) = Some e' \<and>
          length (entities db') = length (entities db) \<and>
          (\<forall>j. j \<noteq> k \<longrightarrow> entities db' ! j = entities db ! j) \<and>
          signals db' = signals db \<and>
          updated_at e' = now \<and>
          e_id e' = supplied (u_id u) (e_id e) \<and>
          e_type e' = supplied (u_type u) (e_type e) \<and>
          area e' = supplied (u_area u) (area e) \<and>
          tags e' = supplied (u_tags u) (tags e) \<and>
          title e' = supplied (u_title u) (title e) \<and>
          short_description e' = supplied (u_short_description u) (short_description e) \<and>
          rating e' = supplied (u_rating u) (rating e) \<and>
          rating_count e' = supplied (u_rating_count u) (rating_count e) \<and>
          status e' = supplied (u_status u) (status e) \<and>
          work_hours e' = supplied (u_work_hours u) (work_hours e) \<and>
          last_confirmed_at e' = supplied (u_last_confirmed_at u) (last_confirmed_at e) \<and>
          created_at e' = supplied (u_created_at u) (created_at e) \<and>
          (\<forall>f. extra e' f = (case u_extra u f of None \<Rightarrow> extra e f | Some v \<Rightarrow> Some v))"
    unfolding updateEntity_found [OF f] Let_def
    using k by (simp add: spread_def map_add_def)
qed

theorem C6_update_frame_witness:
  "''zz'' \<notin> set (map e_id (entities example_db)) \<and>
   updateEntity example_db ''t1'' ''zz'' (no_updates\<lparr>u_title := Some ''Cove''\<rparr>) = (example_db, None) \<and>
   findIndex (\<lambda>e. e_id e = ''c'') (entities example_db) = Some 2 \<and>
   snd (updateEntity example_db ''t1'' ''c'' (no_updates\<lparr>u_title := Some ''Cove''\<rparr>)) =
     Some (entity_C\<lparr>title := ''Cove'', updated_at := ''t1''\<rparr>) \<and>
   entities (fst (updateEntity example_db ''t1'' ''c'' (no_updates\<lparr>u_title := Some ''Cove''\<rparr>))) ! 0 =
     entity_A"
proof -
  let ?u = "no_updates\<lparr>u_title := Some ''Cove''\<rparr> :: unit updates"
  let ?r = "updateEntity example_db ''t1'' ''c'' ?u"
  have z: "''zz'' \<notin> set (map e_id (entities example_db))"
    by (simp add: example_ids)
  have 1: "updateEntity example_db ''t1'' ''zz'' ?u = (example_db, None)"
    using C6_update_frame [of "''zz''" example_db "''t1''" ?u 0] z by blast
  note 2 = C6_update_frame [of "''c''" example_db "''t1''" ?u 2, THEN conjunct2, THEN mp,
      OF example_find_c, unfolded Let_def]
  have 3: "entities (fst ?r) ! 0 = entity_A"
    using 2 by (simp add: example_db_def)
  have 4: "entities (fst ?r) ! 2 = entity_C\<lparr>title := ''Cove'', updated_at := ''t1''\<rparr>"
    using 2 by (simp add: example_defs no_updates_def fun_eq_iff)
  from 2 have "snd ?r = Some (entities (fst ?r) ! 2)" by blast
  with z 1 3 4 example_find_c show ?thesis by simp
qed

text \<open>
  C7, as the spec states it: a \<open>confirm\<close> signal for an existing entity sets the entity's
  \<open>last_confirmed_at\<close> to the signal's timestamp. \<open>addSignal\<close> reads the clock once for the
  signal's \<open>created_at\<close> and once more for \<open>last_confirmed_at\<close>; when the clock advances by a
  millisecond between the two reads, the entity's \<open>last_confirmed_at\<close> is not the signal's
  \<open>created_at\<close>.
\<close>

theorem C7_confirm_timestamp_counterexample:
  "findIndex (\<lambda>e. e_id e = entity_id (signal_for ''a'' ''confirm'')) (entities example_db) = Some 0 \<and>
   s_type (signal_for ''a'' ''confirm'') = ''confirm'' \<and>
   s_created_at (snd (addSignal example_db 5 ''2024-05-01T10:00:00.000Z''
      ''2024-05-01T10:00:00.001Z'' ''2024-05-01T10:00:00.001Z'' (signal_for ''a'' ''confirm'')))
     = ''2024-05-01T10:00:00.000Z'' \<and>
   last_confirmed_at (entities (fst (addSignal example_db 5 ''2024-05-01T10:00:00.000Z''
      ''2024-05-01T10:00:00.001Z'' ''2024-05-01T10:00:00.001Z'' (signal_for ''a'' ''confirm''))) ! 0)
     = Some ''2024-05-01T10:00:00.001Z'' \<and>
   last_confirmed_at (entities (fst (addSignal example_db 5 ''2024-05-01T10:00:00.000Z''
      ''2024-05-01T10:00:00.001Z'' ''2024-05-01T10:00:00.001Z'' (signal_for ''a'' ''confirm''))) ! 0)
     \<noteq> Some (s_created_at (snd (addSignal example_db 5 ''2024-05-01T10:00:00.000Z''
      ''2024-05-01T10:00:00.001Z'' ''2024-05-01T10:00:00.001Z'' (signal_for ''a'' ''confirm''))))"
  by (simp add: addSignal_def Let_def signal_for_def example_defs)

text \<open>
  C7, amended: when the signal's type is \<open>confirm\<close> and an entity with its \<open>entity_id\<close>
  exists, \<open>addSignal\<close> sets the \<open>last_confirmed_at\<close> of the first such entity to the instant
  that the clock gives at that assignment, a read of its own made after the read that stamps
  the signal's \<open>created_at\<close>. When the type is not \<open>confirm\<close>, no entity's \<open>last_confirmed_at\<close>
  changes.
\<close>

theorem C7_confirm_signal:
  "(findIndex (\<lambda>e. e_id e = entity_id sg) (entities db) = Some k \<and> s_type sg = ''confirm'' \<longrightarrow>
      last_confirmed_at (entities (fst (addSignal db ms tc tf tu sg)) ! k) = Some tf \<and>
      s_created_at (snd (addSignal db ms tc tf tu sg)) = tc) \<and>
   (s_type sg \<noteq> ''confirm'' \<longrightarrow>
      map last_confirmed_at (entities (fst (addSignal db ms tc tf tu sg))) =
        map last_confirmed_at (entities db))"
proof (intro conjI impI)
  assume a: "findIndex (\<lambda>e. e_id e = entity_id sg) (entities db) = Some k \<and> s_type sg = ''confirm''"
  then have k: "k < length (entities db)" by (auto dest: findIndex_less)
  from a k show "last_confirmed_at (entities (fst (addSignal db ms tc tf tu sg)) ! k) = Some tf"
    by (simp add: addSignal_found)
  from a show "s_created_at (snd (addSignal db ms tc tf tu sg)) = tc"
    by (simp add: addSignal_found)
next
  assume n: "s_type sg \<noteq> ''confirm''"
  show "map last_confirmed_at (entities (fst (addSignal db ms tc tf tu sg))) =
        map last_confirmed_at (entities db)"
  proof (cases "findIndex (\<lambda>e. e_id e = entity_id sg) (entities db)")
    case None
    then show ?thesis by (simp add: addSignal_absent)
  next
    case (Some j)
    then have "j < length (entities db)" by (rule findIndex_less)
    with Some n show ?thesis
      by (simp add: addSignal_found map_update list_update_same_conv)
  qed
qed

theorem C7_confirm_signal_witness:
  "findIndex (\<lambda>e. e_id e = entity_id (signal_for ''a'' ''confirm'')) (entities example_db) = Some 0 \<and>
   s_type (signal_for ''a'' ''confirm'') = ''confirm'' \<and>
   last_confirmed_at (entities example_db ! 0) = None \<and>
   last_confirmed_at (entities (fst (addSignal example_db 5 ''t1'' ''t2'' ''t3'' (signal_for ''a'' ''confirm''))) ! 0)
     = Some ''t2'' \<and>
   s_created_at (snd (addSignal example_db 5 ''t1'' ''t2'' ''t3'' (signal_for ''a'' ''confirm''))) = ''t1'' \<and>
   s_type (signal_for ''a'' ''view'') \<noteq> ''confirm'' \<and>
   map last_confirmed_at (entities (fst (addSignal example_db 5 ''t1'' ''t2'' ''t3'' (signal_for ''a'' ''view''))))
     = [None, None, None, None]"
proof -
  have f: "findIndex (\<lambda>e. e_id e = entity_id (signal_for ''a'' ''confirm'')) (entities example_db) = Some 0"
    by (simp add: signal_for_def example_find_a)
  have t: "s_type (signal_for ''a'' ''confirm'') = ''confirm''"
    "s_type (signal_for ''a'' ''view'') \<noteq> ''confirm''"
    by (simp_all add: signal_for_def)
  have o: "map last_confirmed_at (entities example_db) = [None, None, None, None]"
    "last_confirmed_at (entities example_db ! 0) = None"
    by (simp_all add: example_defs)
  from C7_confirm_signal [of "signal_for ''a'' ''confirm''" example_db 0 5 "''t1''" "''t2''" "''t3''"]
    C7_confirm_signal [of "signal_for ''a'' ''view''" example_db 0 5 "''t1''" "''t2''" "''t3''"]
    f t o
  show ?thesis by simp
qed

text \<open>
  C8: when no entity has the signal's \<open>entity_id\<close>, \<open>addSignal\<close> leaves the entities as they
  are, appends the new signal to the ledger and returns it: the argument's fields with the
  generated \<open>id\<close> and \<open>created_at\<close>. The operation has no failing path, so a value is
  returned for every argument.
\<close>

theorem C8_orphan_signal:
  "entity_id sg \<notin> set (map e_id (entities db)) \<Longrightarrow>
   entities (fst (addSignal db ms tc tf tu sg)) = entities db \<and>
   signals (fst (addSignal db ms tc tf tu sg)) = signals db @ [snd (addSignal db ms tc tf tu sg)] \<and>
   snd (addSignal db ms tc tf tu sg) =
     \<lparr>entity_id = entity_id sg, s_type = s_type sg, s_extra = s_extra sg,
      s_id = ''signal-'' @ show_int ms, s_created_at = tc\<rparr>"
  by (simp add: addSignal_absent findIndex_absent)

theorem C8_orphan_signal_witness:
  "entity_id (signal_for ''zz'' ''confirm'') \<notin> set (map e_id (entities example_db)) \<and>
   entities (fst (addSignal example_db 5 ''t1'' ''t2'' ''t3'' (signal_for ''zz'' ''confirm''))) =
     entities example_db \<and>
   signals (fst (addSignal example_db 5 ''t1'' ''t2'' ''t3'' (signal_for ''zz'' ''confirm''))) =
     [\<lparr>entity_id = ''zz'', s_type = ''confirm'', s_extra = Map.empty,
       s_id = ''signal-5'', s_created_at = ''t1''\<rparr>]"
proof -
  have a: "entity_id (signal_for ''zz'' ''confirm'') \<notin> set (map e_id (entities example_db))"
    by (simp add: signal_for_def example_ids)
  have s: "show_int 5 = ''5''"
    by (simp add: show_int_def show_nat.simps)
  have e: "signals example_db = []"
    by (simp add: example_db_def)
  from C8_orphan_signal [OF a, of 5 "''t1''" "''t2''" "''t3''"] a s e show ?thesis
    by (simp add: signal_for_def)
qed

text \<open>
  C10: when an entity with the signal's \<open>entity_id\<close> exists, \<open>addSignal\<close> sets the
  \<open>updated_at\<close> of the first such entity to the instant read for it, whatever the signal's
  type; for a type other than \<open>confirm\<close> that is the only change to the entities, and
  \<open>last_confirmed_at\<close> keeps its value.
\<close>

theorem C10_signal_bumps_updated_at:
  "findIndex (\<lambda>e. e_id e = entity_id sg) (entities db) = Some k \<Longrightarrow>
   updated_at (entities (fst (addSignal db ms tc tf tu sg)) ! k) = tu \<and>
   (s_type sg \<noteq> ''confirm'' \<longrightarrow>
      last_confirmed_at (entities (fst (addSignal db ms tc tf tu sg)) ! k) =
        last_confirmed_at (entities db ! k) \<and>
      entities (fst (addSignal db ms tc tf tu sg)) =
        (entities db)[k := (entities db ! k)\<lparr>updated_at := tu\<rparr>])"
proof -
  assume f: "findIndex (\<lambda>e. e_id e = entity_id sg) (entities db) = Some k"
  then have "k < length (entities db)" by (rule findIndex_less)
  then show ?thesis by (simp add: addSignal_found [OF f])
qed

theorem C10_signal_bumps_updated_at_witness:
  "findIndex (\<lambda>e. e_id e = entity_id (signal_for ''c'' ''view'')) (entities example_db) = Some 2 \<and>
   s_type (signal_for ''c'' ''view'') \<noteq> ''confirm'' \<and>
   updated_at (entities example_db ! 2) \<noteq> ''t3'' \<and>
   updated_at (entities (fst (addSignal example_db 5 ''t1'' ''t2'' ''t3'' (signal_for ''c'' ''view''))) ! 2) = ''t3'' \<and>
   last_confirmed_at (entities (fst (addSignal example_db 5 ''t1'' ''t2'' ''t3'' (signal_for ''c'' ''view''))) ! 2)
     = None"
proof -
  have f: "findIndex (\<lambda>e. e_id e = entity_id (signal_for ''c'' ''view'')) (entities example_db) = Some 2"
    by (simp add: signal_for_def example_find_c)
  have t: "s_type (signal_for ''c'' ''view'') \<noteq> ''confirm''"
    by (simp add: signal_for_def)
  have o: "updated_at (entities example_db ! 2) \<noteq> ''t3''"
    "last_confirmed_at (entities example_db ! 2) = None"
    by (simp_all add: example_defs)
  from C10_signal_bumps_updated_at [OF f, of 5 "''t1''" "''t2''" "''t3''"] t o(2)
  have "updated_at (entities (fst (addSignal example_db 5 ''t1'' ''t2'' ''t3'' (signal_for ''c'' ''view''))) ! 2) = ''t3'' \<and>
    last_confirmed_at (entities (fst (addSignal example_db 5 ''t1'' ''t2'' ''t3'' (signal_for ''c'' ''view''))) ! 2) = None"
    by metis
  with f t o(1) show ?thesis by blast
qed

end
